theory Spec2Isabelle
  imports Main "HOL-Library.Word"
begin

section \<open>Configuration items (\<open>cfg::config_item\<close>, config.h)\<close>

text \<open>
  \<open>cfgitem\<close> is \<open>config_item<bool, uint8, int, double>\<close>: a name and a
  \<open>std::variant\<close> over four arithmetic types. The variant is a datatype with one
  constructor per alternative. \<open>uint8\<close> is an 8-bit word and \<open>int\<close> a 32-bit word.
  The carrier of \<open>double\<close> is a type parameter \<open>'d\<close>: the floating-point operations the
  class calls (formatting, \<open>std::from_chars\<close>, the built-in conversions) belong to the
  language and its library, not to this repository, and are taken as the fields of a
  record \<open>'d fp\<close> that every operation receives. A record field \<open>m_x\<close> is the
  data member \<open>x_\<close> of the class.
\<close>

type_synonym uint8 = "8 word"
type_synonym int32 = "32 word"

datatype 'd variant = VBool bool | VU8 uint8 | VInt int32 | VDouble 'd

datatype kind = KBool | KU8 | KInt | KDouble

fun holds_alternative :: "'d variant \<Rightarrow> kind" where
  "holds_alternative (VBool _) = KBool"
| "holds_alternative (VU8 _) = KU8"
| "holds_alternative (VInt _) = KInt"
| "holds_alternative (VDouble _) = KDouble"

record 'd fp =
  fp_format :: "'d \<Rightarrow> string"
  fp_from_chars :: "string \<Rightarrow> 'd option"
  fp_of_int :: "int \<Rightarrow> 'd"
  fp_nonzero :: "'d \<Rightarrow> bool"
  fp_to_uint8 :: "'d \<Rightarrow> uint8"
  fp_to_int :: "'d \<Rightarrow> int32"

record 'd config_item =
  m_name :: string
  m_value :: "'d variant"

subsection \<open>\<open>std::from_chars\<close> on integers, base 10\<close>

definition is_digit :: "char \<Rightarrow> bool" where
  "is_digit c = (48 \<le> (of_char c :: nat) \<and> (of_char c :: nat) \<le> 57)"

definition digit_value :: "char \<Rightarrow> nat" where
  "digit_value c = of_char c - 48"

fun digits_value :: "nat \<Rightarrow> string \<Rightarrow> nat" where
  "digits_value acc [] = acc"
| "digits_value acc (c # cs) = digits_value (10 * acc + digit_value c) cs"

text \<open>
  The subject sequence is an optional minus sign (signed types only; a plus sign and
  leading white space are never accepted) and the longest run of digits after it.
  \<open>None\<close> stands for both error results, \<open>invalid_argument\<close> (no digit) and
  \<open>result_out_of_range\<close>; in both the referenced value is not modified.
\<close>

definition from_chars_int :: "string \<Rightarrow> int32 option" where
  "from_chars_int s =
     (let neg = (s \<noteq> [] \<and> hd s = CHR ''-'');
          ds = takeWhile is_digit (if neg then tl s else s)
      in if ds = [] then None
         else let v = (if neg then - int (digits_value 0 ds) else int (digits_value 0 ds))
              in if - (2 ^ 31) \<le> v \<and> v < 2 ^ 31 then Some (word_of_int v) else None)"

definition from_chars_uint8 :: "string \<Rightarrow> uint8 option" where
  "from_chars_uint8 s =
     (let ds = takeWhile is_digit s
      in if ds = [] then None
         else let v = digits_value 0 ds
              in if v < 2 ^ 8 then Some (of_nat v) else None)"

subsection \<open>\<open>set(std::string_view)\<close>\<close>

text \<open>
  The visitor has one overload for \<open>bool&\<close> and a generic one that hands the active
  alternative to \<open>std::from_chars\<close> and discards the result.
\<close>

fun visit_set :: "'d fp \<Rightarrow> string \<Rightarrow> 'd variant \<Rightarrow> 'd variant" where
  "visit_set ops s (VBool b) = VBool (s = ''1'' \<or> s = ''true'')"
| "visit_set ops s (VU8 w) = (case from_chars_uint8 s of None \<Rightarrow> VU8 w | Some w' \<Rightarrow> VU8 w')"
| "visit_set ops s (VInt w) = (case from_chars_int s of None \<Rightarrow> VInt w | Some w' \<Rightarrow> VInt w')"
| "visit_set ops s (VDouble d) =
     (case fp_from_chars ops s of None \<Rightarrow> VDouble d | Some d' \<Rightarrow> VDouble d')"

definition set_text :: "'d fp \<Rightarrow> string \<Rightarrow> 'd config_item \<Rightarrow> 'd config_item" where
  "set_text ops s item = item\<lparr>m_value := visit_set ops s (m_value item)\<rparr>"

subsection \<open>\<open>set(auto value)\<close>\<close>

text \<open>
  The typed overload assigns to the variant, which switches to the alternative of the
  argument's type.
\<close>

definition set_value :: "'d variant \<Rightarrow> 'd config_item \<Rightarrow> 'd config_item" where
  "set_value v item = item\<lparr>m_value := v\<rparr>"

subsection \<open>\<open>to<std::string>()\<close>: \<open>std::format("{}", value)\<close> on the active alternative\<close>

definition digit_char :: "nat \<Rightarrow> char" where
  "digit_char n = char_of (48 + n)"

fun show_nat :: "nat \<Rightarrow> string" where
  "show_nat n = (if n < 10 then [digit_char n] else show_nat (n div 10) @ [digit_char (n mod 10)])"

declare show_nat.simps [simp del]

definition format_int :: "int \<Rightarrow> string" where
  "format_int i = (if i < 0 then CHR ''-'' # show_nat (nat (- i)) else show_nat (nat i))"

text \<open>
  \<open>uint8\<close> is \<open>unsigned char\<close>, which \<open>std::format\<close> prints as an unsigned integer, not
  as a character.
\<close>

fun visit_format :: "'d fp \<Rightarrow> 'd variant \<Rightarrow> string" where
  "visit_format ops (VBool b) = (if b then ''true'' else ''false'')"
| "visit_format ops (VU8 w) = show_nat (unat w)"
| "visit_format ops (VInt w) = format_int (sint w)"
| "visit_format ops (VDouble d) = fp_format ops d"

definition to_string :: "'d fp \<Rightarrow> 'd config_item \<Rightarrow> string" where
  "to_string ops item = visit_format ops (m_value item)"

subsection \<open>\<open>to<Value>()\<close>: \<open>std::get<Value>(value_)\<close>\<close>

text \<open>
  \<open>std::get\<close> throws \<open>std::bad_variant_access\<close> when the requested alternative is not
  the active one. The other two errors are the undefined behaviour of the menu code:
  a binding whose pointer refers to no setting, and a cursor that refers to no binding.
\<close>

datatype error = Bad_variant_access | Invalid_pointer | Invalid_iterator

definition to_value :: "kind \<Rightarrow> 'd config_item \<Rightarrow> error + 'd variant" where
  "to_value k item =
     (if holds_alternative (m_value item) = k then Inr (m_value item)
      else Inl Bad_variant_access)"

subsection \<open>\<open>operator Value()\<close>: \<open>static_cast<Value>\<close> on the active alternative\<close>

text \<open>
  The conversions between \<open>bool\<close>, \<open>uint8\<close> and \<open>int\<close> are those of the language:
  a number becomes true when it is not zero, \<open>int\<close> to \<open>uint8\<close> keeps the low eight
  bits, \<open>uint8\<close> to \<open>int\<close> extends with zeros. The conversions from and to \<open>double\<close>
  are fields of \<open>ops\<close>; \<open>fp_to_uint8\<close> and \<open>fp_to_int\<close> stand for whatever the
  platform yields, also where C++ leaves the conversion of an out-of-range \<open>double\<close>
  undefined.
\<close>

fun static_cast :: "'d fp \<Rightarrow> kind \<Rightarrow> 'd variant \<Rightarrow> 'd variant" where
  "static_cast ops KBool (VBool b) = VBool b"
| "static_cast ops KBool (VU8 w) = VBool (w \<noteq> 0)"
| "static_cast ops KBool (VInt w) = VBool (w \<noteq> 0)"
| "static_cast ops KBool (VDouble d) = VBool (fp_nonzero ops d)"
| "static_cast ops KU8 (VBool b) = VU8 (if b then 1 else 0)"
| "static_cast ops KU8 (VU8 w) = VU8 w"
| "static_cast ops KU8 (VInt w) = VU8 (ucast w)"
| "static_cast ops KU8 (VDouble d) = VU8 (fp_to_uint8 ops d)"
| "static_cast ops KInt (VBool b) = VInt (if b then 1 else 0)"
| "static_cast ops KInt (VU8 w) = VInt (ucast w)"
| "static_cast ops KInt (VInt w) = VInt w"
| "static_cast ops KInt (VDouble d) = VInt (fp_to_int ops d)"
| "static_cast ops KDouble (VBool b) = VDouble (fp_of_int ops (if b then 1 else 0))"
| "static_cast ops KDouble (VU8 w) = VDouble (fp_of_int ops (uint w))"
| "static_cast ops KDouble (VInt w) = VDouble (fp_of_int ops (sint w))"
| "static_cast ops KDouble (VDouble d) = VDouble d"

definition operator_Value :: "'d fp \<Rightarrow> kind \<Rightarrow> 'd config_item \<Rightarrow> 'd variant" where
  "operator_Value ops k item = static_cast ops k (m_value item)"

text \<open>The integer a non-floating alternative stands for.\<close>

fun integral_value :: "'d variant \<Rightarrow> int option" where
  "integral_value (VBool b) = Some (if b then 1 else 0)"
| "integral_value (VU8 w) = Some (uint w)"
| "integral_value (VInt w) = Some (sint w)"
| "integral_value (VDouble d) = None"

subsection \<open>Texts without a numeric prefix\<close>

text \<open>
  What \<open>std::from_chars\<close> rejects as \<open>invalid_argument\<close>, said on the text alone:
  for \<open>uint8\<close> the text does not start with a digit; for \<open>int\<close> it does not start
  with a digit or with a minus sign and a digit.
\<close>

definition no_uint_prefix :: "string \<Rightarrow> bool" where
  "no_uint_prefix s = (case s of [] \<Rightarrow> True | c # _ \<Rightarrow> \<not> is_digit c)"

definition no_int_prefix :: "string \<Rightarrow> bool" where
  "no_int_prefix s =
     (case s of [] \<Rightarrow> True
      | c # cs \<Rightarrow> if c = CHR ''-'' then no_uint_prefix cs else \<not> is_digit c)"

section \<open>Menu options (\<open>ui::menu_option\<close>, menu.h)\<close>

text \<open>
  A menu option holds a key, a pointer to a configuration item it does not own, and an
  action. The items live in a store, a map from addresses to items, and the pointer is
  an address. The action is a \<open>std::function<void()>\<close>, empty by default: \<open>None\<close>
  when empty, otherwise a function on the state \<open>'w\<close> the callable can reach. Fields
  are in the order of the class's data members.
\<close>

type_synonym 'd store = "nat \<Rightarrow> 'd config_item option"

record 'w menu_option =
  m_action :: "('w \<Rightarrow> 'w) option"
  m_cfgitem :: nat
  m_key :: uint8

definition menu_option :: "uint8 \<Rightarrow> nat \<Rightarrow> ('w \<Rightarrow> 'w) option \<Rightarrow> 'w menu_option" where
  "menu_option k item act = \<lparr>m_action = act, m_cfgitem = item, m_key = k\<rparr>"

definition key :: "'w menu_option \<Rightarrow> uint8" where
  "key opt = m_key opt"

definition option_eq :: "'w menu_option \<Rightarrow> 'w menu_option \<Rightarrow> bool" where
  "option_eq lhs rhs = (key lhs = key rhs)"

text \<open>
  \<open>apply\<close> is a template over the argument: a text selects \<open>set(std::string_view)\<close>,
  a value of one of the four types selects \<open>set(auto)\<close>.
\<close>

datatype 'd arg = Text string | Value "'d variant"

fun item_set :: "'d fp \<Rightarrow> 'd arg \<Rightarrow> 'd config_item \<Rightarrow> 'd config_item" where
  "item_set ops (Text s) item = set_text ops s item"
| "item_set ops (Value v) item = set_value v item"

definition option_apply ::
  "'d fp \<Rightarrow> 'd arg \<Rightarrow> ('d store) menu_option \<Rightarrow> 'd store \<Rightarrow> error + 'd store" where
  "option_apply ops a opt st =
     (case st (m_cfgitem opt) of
        None \<Rightarrow> Inl Invalid_pointer
      | Some item \<Rightarrow>
          (let st' = st(m_cfgitem opt \<mapsto> item_set ops a item)
           in case m_action opt of None \<Rightarrow> Inr st' | Some act \<Rightarrow> Inr (act st')))"

section \<open>Menus (\<open>ui::menu\<close>, menu.h)\<close>

subsection \<open>\<open>std::vector\<close> and its iterators\<close>

text \<open>
  The selection is a \<open>std::vector\<close> iterator, that is a pointer into the block of
  memory that holds the elements, so the vector is modelled with its block: a block
  identifier (0 for no block), the capacity, and the elements. An iterator is a block
  and an offset. \<open>emplace_back\<close> appends in place while the size is below the
  capacity; otherwise it moves the elements to the block \<open>fresh\<close> that the allocator
  hands out, with twice the capacity (the factor is the implementation's choice).
\<close>

record 'a vector =
  v_block :: nat
  v_capacity :: nat
  v_elems :: "'a list"

record iterator =
  it_block :: nat
  it_offset :: nat

definition vector_end :: "'a vector \<Rightarrow> iterator" where
  "vector_end v = \<lparr>it_block = v_block v, it_offset = length (v_elems v)\<rparr>"

definition emplace_back :: "nat \<Rightarrow> 'a \<Rightarrow> 'a vector \<Rightarrow> 'a vector" where
  "emplace_back fresh x v =
     (if length (v_elems v) < v_capacity v then v\<lparr>v_elems := v_elems v @ [x]\<rparr>
      else \<lparr>v_block = fresh, v_capacity = max 1 (2 * v_capacity v),
            v_elems = v_elems v @ [x]\<rparr>)"

fun find_if_offset :: "('a \<Rightarrow> bool) \<Rightarrow> 'a list \<Rightarrow> nat" where
  "find_if_offset P [] = 0"
| "find_if_offset P (x # xs) = (if P x then 0 else Suc (find_if_offset P xs))"

definition find_if :: "'a vector \<Rightarrow> ('a \<Rightarrow> bool) \<Rightarrow> iterator" where
  "find_if v P = \<lparr>it_block = v_block v, it_offset = find_if_offset P (v_elems v)\<rparr>"

text \<open>
  Reading through an iterator is defined when it points into the vector's block, before
  the end.
\<close>

definition dereference :: "'a vector \<Rightarrow> iterator \<Rightarrow> error + 'a" where
  "dereference v it =
     (if it_block it = v_block v \<and> it_offset it < length (v_elems v)
      then Inr (v_elems v ! it_offset it) else Inl Invalid_iterator)"

definition vector_eq :: "('a \<Rightarrow> 'a \<Rightarrow> bool) \<Rightarrow> 'a vector \<Rightarrow> 'a vector \<Rightarrow> bool" where
  "vector_eq eq a b =
     (length (v_elems a) = length (v_elems b) \<and> list_all2 eq (v_elems a) (v_elems b))"

subsection \<open>The menu\<close>

record 'w menu =
  m_options :: "'w menu_option vector"
  m_selection :: iterator

text \<open>A default-constructed menu: no storage, and a value-initialised iterator.\<close>

definition menu_init :: "'w menu" where
  "menu_init =
     \<lparr>m_options = \<lparr>v_block = 0, v_capacity = 0, v_elems = []\<rparr>,
      m_selection = \<lparr>it_block = 0, it_offset = 0\<rparr>\<rparr>"

definition add :: "nat \<Rightarrow> uint8 \<Rightarrow> nat \<Rightarrow> ('w \<Rightarrow> 'w) option \<Rightarrow> 'w menu \<Rightarrow> 'w menu" where
  "add fresh k item act m =
     m\<lparr>m_options := emplace_back fresh (menu_option k item act) (m_options m)\<rparr>"

definition select :: "uint8 \<Rightarrow> 'w menu \<Rightarrow> 'w menu \<times> bool" where
  "select k m =
     (let it = find_if (m_options m) (\<lambda>opt. key opt = k)
      in (m\<lparr>m_selection := it\<rparr>, it \<noteq> vector_end (m_options m)))"

definition selection :: "'w menu \<Rightarrow> error + 'w menu_option" where
  "selection m = dereference (m_options m) (m_selection m)"

text \<open>
  The state a failed \<open>select\<close> leaves, and the only one the class can tell from a
  selection: the cursor is the end of the sequence.
\<close>

definition unselected :: "'w menu \<Rightarrow> bool" where
  "unselected m = (m_selection m = vector_end (m_options m))"

text \<open>
  The defaulted \<open>operator==\<close> compares the data members in the order of their
  declaration: the options, element by element with the options' own \<open>operator==\<close>,
  then the selection.
\<close>

definition menu_eq :: "'w menu \<Rightarrow> 'w menu \<Rightarrow> bool" where
  "menu_eq a b =
     (vector_eq option_eq (m_options a) (m_options b) \<and> m_selection a = m_selection b)"

text \<open>
  \<open>remove()\<close> is not embedded. Its body is \<open>options_.erase(selection)\<close>: the argument
  names the member function \<open>selection\<close>, not the data member \<open>selection_\<close>, and the
  name of a non-static member function that is not called is no expression, so the body
  is ill-formed once the member is instantiated and there is no behaviour to translate.
\<close>

section \<open>Example objects\<close>

text \<open>
  The objects the examples are evaluated on. \<open>config::defaults()\<close> makes the screen
  width \<open>{"screen width", 800}\<close> and the screen height \<open>{"screen height", 600}\<close>,
  both \<open>int\<close>, and the automatic gain \<open>{"auto gain", false}\<close>; the store holds
  the width and the height at the addresses 10 and 11. The keys are
  \<open>'w'\<close> (119), \<open>'h'\<close> (104) and \<open>'x'\<close> (120). No example holds a
  \<open>double\<close>, so the floating-point operations are instantiated on a carrier of one
  element.
\<close>

definition no_double :: "unit fp" where
  "no_double =
     \<lparr>fp_format = (\<lambda>_. ''0''), fp_from_chars = (\<lambda>_. None), fp_of_int = (\<lambda>_. ()),
      fp_nonzero = (\<lambda>_. False), fp_to_uint8 = (\<lambda>_. 0), fp_to_int = (\<lambda>_. 0)\<rparr>"

definition screen_width :: "unit config_item" where
  "screen_width = \<lparr>m_name = ''screen width'', m_value = VInt 800\<rparr>"

definition screen_height :: "unit config_item" where
  "screen_height = \<lparr>m_name = ''screen height'', m_value = VInt 600\<rparr>"

definition auto_gain :: "unit config_item" where
  "auto_gain = \<lparr>m_name = ''auto gain'', m_value = VBool False\<rparr>"

definition screen_store :: "unit store" where
  "screen_store = (\<lambda>_. None)(10 \<mapsto> screen_width, 11 \<mapsto> screen_height)"

text \<open>A binding of \<open>'w'\<close> to the width whose action copies the width to the height.\<close>

definition copy_width :: "unit store \<Rightarrow> unit store" where
  "copy_width st = st(11 := st 10)"

definition width_option :: "(unit store) menu_option" where
  "width_option = menu_option 119 10 (Some copy_width)"

text \<open>
  A menu with the one binding \<open>'w'\<close>, in block 1; the same menu after
  \<open>select('w')\<close> and after \<open>select('x')\<close>; a second menu built in the same way, in
  block 2; a menu with the two bindings \<open>'w'\<close> and \<open>'h'\<close>, in block 2; and
  a menu with the three bindings \<open>'w'\<close>, \<open>'h'\<close> and \<open>'x'\<close>, in block 3 with
  room for a fourth, after \<open>select('h')\<close>.
\<close>

definition width_menu :: "(unit store) menu" where
  "width_menu = add 1 119 10 None menu_init"

definition width_menu_w :: "(unit store) menu" where
  "width_menu_w = fst (select 119 width_menu)"

definition width_menu_x :: "(unit store) menu" where
  "width_menu_x = fst (select 120 width_menu)"

definition other_menu_w :: "(unit store) menu" where
  "other_menu_w = fst (select 119 (add 2 119 10 None menu_init))"

definition screen_menu :: "(unit store) menu" where
  "screen_menu = add 2 104 11 None width_menu"


section \<open>Decimal texts\<close>

text \<open>
  What \<open>std::format\<close> writes for a natural number is a non-empty run of digits, and
  \<open>std::from_chars\<close> reads the number back from it.
\<close>

lemma is_digit_digit_char: "n < 10 \<Longrightarrow> is_digit (digit_char n)"
  by (simp add: is_digit_def digit_char_def)

lemma digit_value_digit_char: "n < 10 \<Longrightarrow> digit_value (digit_char n) = n"
  by (simp add: digit_value_def digit_char_def)

lemma show_nat_digits: "list_all is_digit (show_nat n)"
proof (induction n rule: show_nat.induct)
  case (1 n)
  show ?case
  proof (cases "n < 10")
    case True
    then show ?thesis by (subst show_nat.simps) (simp add: is_digit_digit_char)
  next
    case False
    with 1 show ?thesis
      by (subst show_nat.simps) (simp add: is_digit_digit_char)
  qed
qed

lemma show_nat_not_Nil: "show_nat n \<noteq> []"
  by (subst show_nat.simps) simp

lemma digits_value_append:
  "digits_value acc (xs @ [c]) = 10 * digits_value acc xs + digit_value c"
  by (induction xs arbitrary: acc) simp_all

lemma digits_value_show_nat: "digits_value 0 (show_nat n) = n"
proof (induction n rule: show_nat.induct)
  case (1 n)
  show ?case
  proof (cases "n < 10")
    case True
    then show ?thesis by (subst show_nat.simps) (simp add: digit_value_digit_char)
  next
    case False
    with 1 have "digits_value 0 (show_nat (n div 10)) = n div 10" by simp
    with False show ?thesis
      by (subst show_nat.simps) (simp add: digits_value_append digit_value_digit_char)
  qed
qed

lemma hd_show_nat_digit: "is_digit (hd (show_nat n))"
  using show_nat_digits [of n] show_nat_not_Nil [of n]
  by (cases "show_nat n") simp_all

lemma is_digit_not_minus: "is_digit c \<Longrightarrow> c \<noteq> CHR ''-''"
  by (auto simp: is_digit_def)

lemma takeWhile_show_nat: "takeWhile is_digit (show_nat n) = show_nat n"
  using show_nat_digits [of n] by (simp add: list_all_iff)

lemma from_chars_uint8_show: "n < 256 \<Longrightarrow> from_chars_uint8 (show_nat n) = Some (of_nat n)"
  by (simp add: from_chars_uint8_def Let_def takeWhile_show_nat show_nat_not_Nil
      digits_value_show_nat)

lemma from_chars_int_format:
  assumes "- (2 ^ 31) \<le> i" and "i < 2 ^ 31"
  shows "from_chars_int (format_int i) = Some (word_of_int i)"
proof (cases "i < 0")
  case True
  with assms show ?thesis
    by (simp add: from_chars_int_def Let_def format_int_def takeWhile_show_nat
        show_nat_not_Nil digits_value_show_nat)
next
  case False
  have "hd (show_nat (nat i)) \<noteq> CHR ''-''"
    by (rule is_digit_not_minus) (rule hd_show_nat_digit)
  with False assms show ?thesis
    by (simp add: from_chars_int_def Let_def format_int_def takeWhile_show_nat
        show_nat_not_Nil digits_value_show_nat)
qed

text \<open>
  Setting the text of one alternative on any setting of the same alternative stores the
  value the text was written from.
\<close>

lemma visit_set_format_bool: "visit_set ops (visit_format ops (VBool b)) (VBool b') = VBool b"
  by simp

lemma visit_set_format_uint8: "visit_set ops (visit_format ops (VU8 w)) (VU8 w') = VU8 w"
proof -
  have "unat w < 256" using unsigned_less [of w, where 'a = nat] by simp
  then show ?thesis by (simp add: from_chars_uint8_show)
qed

lemma visit_set_format_int: "visit_set ops (visit_format ops (VInt w)) (VInt w') = VInt w"
proof -
  have "- (2 ^ 31) \<le> sint w" "sint w < 2 ^ 31"
    using sint_ge [of w] sint_lt [of w] by simp_all
  then show ?thesis by (simp add: from_chars_int_format)
qed

lemma visit_set_format:
  assumes "holds_alternative v \<noteq> KDouble"
    and "holds_alternative v' = holds_alternative v"
  shows "visit_set ops (visit_format ops v) v' = v"
proof (cases v)
  case (VBool b)
  with assms obtain b' where "v' = VBool b'" by (cases v') simp_all
  with VBool show ?thesis by (simp only: visit_set_format_bool)
next
  case (VU8 w)
  with assms obtain w' where "v' = VU8 w'" by (cases v') simp_all
  with VU8 show ?thesis by (simp only: visit_set_format_uint8)
next
  case (VInt w)
  with assms obtain w' where "v' = VInt w'" by (cases v') simp_all
  with VInt show ?thesis by (simp only: visit_set_format_int)
next
  case (VDouble d)
  with assms show ?thesis by simp
qed

text \<open>A text without a numeric prefix is rejected.\<close>

lemma no_uint_prefix_takeWhile: "no_uint_prefix s \<Longrightarrow> takeWhile is_digit s = []"
  by (cases s) (simp_all add: no_uint_prefix_def)

lemma from_chars_uint8_no_prefix: "no_uint_prefix s \<Longrightarrow> from_chars_uint8 s = None"
  by (simp add: from_chars_uint8_def no_uint_prefix_takeWhile)

lemma from_chars_int_no_prefix: "no_int_prefix s \<Longrightarrow> from_chars_int s = None"
  by (cases s)
     (auto simp: from_chars_int_def Let_def no_int_prefix_def no_uint_prefix_takeWhile
        no_uint_prefix_def split: if_splits)

lemma to_string_screen_width: "to_string no_double screen_width = ''800''"
  by code_simp

lemma digit_chars:
  "digit_char 0 = CHR ''0''" "digit_char 1 = CHR ''1''" "digit_char 2 = CHR ''2''"
  "digit_char 3 = CHR ''3''" "digit_char 4 = CHR ''4''" "digit_char 5 = CHR ''5''"
  "digit_char 6 = CHR ''6''" "digit_char 7 = CHR ''7''" "digit_char 8 = CHR ''8''"
  "digit_char 9 = CHR ''9''" "digit_char (Suc 0) = CHR ''1''"
  by code_simp+

lemma to_string_examples:
  "to_string no_double \<lparr>m_name = ''gain'', m_value = VU8 20\<rparr> = ''20''"
  "to_string no_double \<lparr>m_name = ''device id'', m_value = VInt (- 2147483648)\<rparr>
     = ''-2147483648''"
  "to_string no_double auto_gain = ''false''"
  by (simp_all add: to_string_def format_int_def show_nat.simps digit_chars auto_gain_def)

section \<open>Searching and converting\<close>

text \<open>
  \<open>find_if_offset\<close> returns the offset of the first element that satisfies the
  predicate, and the length when there is none.
\<close>

lemma find_if_offset_le: "find_if_offset P xs \<le> length xs"
  by (induction xs) simp_all

lemma find_if_offset_less_iff: "find_if_offset P xs < length xs \<longleftrightarrow> (\<exists>x \<in> set xs. P x)"
  by (induction xs) auto

lemma find_if_offset_holds: "find_if_offset P xs < length xs \<Longrightarrow> P (xs ! find_if_offset P xs)"
  by (induction xs) (auto split: if_splits)

lemma find_if_offset_first: "j < find_if_offset P xs \<Longrightarrow> \<not> P (xs ! j)"
proof (induction xs arbitrary: j)
  case Nil
  then show ?case by simp
next
  case (Cons x xs)
  then show ?case by (cases j) (auto split: if_splits)
qed

text \<open>The conversions between the alternatives, on the integers they stand for.\<close>

lemma static_cast_kind: "holds_alternative (static_cast ops k v) = k"
  by (cases v; cases k) simp_all

lemma static_cast_same: "holds_alternative v = k \<Longrightarrow> static_cast ops k v = v"
  by (cases v; cases k) simp_all

lemma ucast_32_8: "(ucast (w :: 32 word) :: 8 word) = word_of_int (sint w)"
proof -
  have "(ucast :: 32 word \<Rightarrow> 8 word) = scast"
    by (rule down_cast_same) (simp add: is_down)
  then show ?thesis by simp
qed

lemma static_cast_integral:
  "integral_value v = Some i \<Longrightarrow>
     static_cast ops KBool v = VBool (i \<noteq> 0)
     \<and> static_cast ops KU8 v = VU8 (word_of_int i)
     \<and> static_cast ops KInt v = VInt (word_of_int i)
     \<and> static_cast ops KDouble v = VDouble (fp_of_int ops i)"
  by (cases v) (auto simp: ucast_32_8 uint_0_iff signed_eq_0_iff)

lemma integral_value_cast:
  assumes "integral_value v = Some i"
  shows "integral_value (static_cast ops KU8 v) = Some (i mod 256)
     \<and> integral_value (static_cast ops KInt v) = Some i
     \<and> integral_value (static_cast ops KBool v) = Some (if i = 0 then 0 else 1)"
proof (cases v)
  case (VBool b)
  with assms show ?thesis by auto
next
  case (VU8 w)
  with assms have i: "i = uint w" by simp
  have lt: "uint w < 256" using uint_lt2p [of w] by simp
  have "signed_take_bit 31 (uint w) = uint w"
  proof (rule signed_take_bit_int_eq_self)
    have "- (2 ^ 31) \<le> (0 :: int)" by simp
    also have "0 \<le> uint w" by simp
    finally show "- (2 ^ 31) \<le> uint w" .
    show "uint w < 2 ^ 31" using lt by simp
  qed
  then have up: "sint (ucast w :: 32 word) = uint w"
    by (simp add: signed_ucast_eq)
  have md: "uint w mod 256 = uint w" using lt by simp
  have "integral_value (static_cast ops KU8 v) = Some (i mod 256)"
    by (simp only: VU8 i md static_cast.simps integral_value.simps)
  moreover have "integral_value (static_cast ops KInt v) = Some i"
    by (simp only: VU8 i up static_cast.simps integral_value.simps)
  moreover have "integral_value (static_cast ops KBool v) = Some (if i = 0 then 0 else 1)"
    by (simp add: VU8 i uint_0_iff)
  ultimately show ?thesis by simp
next
  case (VInt w)
  with assms have i: "i = sint w" by simp
  have "uint (ucast w :: 8 word) = uint (word_of_int (sint w) :: 8 word)"
    by (simp only: ucast_32_8)
  also have "\<dots> = sint w mod 2 ^ LENGTH(8)"
    by (rule uint_word_of_int)
  finally have down: "uint (ucast w :: 8 word) = sint w mod 256" by simp
  have "integral_value (static_cast ops KU8 v) = Some (i mod 256)"
    by (simp only: VInt i down static_cast.simps integral_value.simps)
  moreover have "integral_value (static_cast ops KInt v) = Some i"
    by (simp only: VInt i static_cast.simps integral_value.simps)
  moreover have "integral_value (static_cast ops KBool v) = Some (if i = 0 then 0 else 1)"
    by (simp add: VInt i signed_eq_0_iff)
  ultimately show ?thesis by simp
next
  case (VDouble d)
  with assms show ?thesis by simp
qed

section \<open>Menus: adding and comparing\<close>




lemma list_all2_option_eq:
  "length xs = length ys \<and> list_all2 option_eq xs ys \<longleftrightarrow> map key xs = map key ys"
proof (induction xs arbitrary: ys)
  case Nil
  then show ?case by auto
next
  case (Cons x xs)
  then show ?case by (cases ys) (auto simp: option_eq_def)
qed



section \<open>The properties of the specification\<close>

subsection \<open>Selecting a binding\<close>

text \<open>
  C1. \<open>select(k)\<close> leaves the bindings as they are and returns true exactly when some
  binding has the key \<open>k\<close>. When it returns true the cursor is at the first binding,
  in insertion order, whose key is \<open>k\<close>, and \<open>selection()\<close> is that binding. When
  it returns false the cursor is the end of the sequence, whatever it was before, and
  reads no binding.
\<close>

theorem select_first_match:
  assumes "select k m = (m', found)"
  shows "m_options m' = m_options m
    \<and> (found \<longleftrightarrow> (\<exists>opt \<in> set (v_elems (m_options m)). key opt = k))
    \<and> (found \<longrightarrow>
         (\<exists>i < length (v_elems (m_options m)).
            m_selection m' = \<lparr>it_block = v_block (m_options m), it_offset = i\<rparr>
            \<and> key (v_elems (m_options m) ! i) = k
            \<and> (\<forall>j < i. key (v_elems (m_options m) ! j) \<noteq> k)
            \<and> selection m' = Inr (v_elems (m_options m) ! i)))
    \<and> (\<not> found \<longrightarrow>
         m_selection m' = vector_end (m_options m) \<and> unselected m'
         \<and> selection m' = Inl Invalid_iterator)"
proof -
  let ?xs = "v_elems (m_options m)"
  let ?i = "find_if_offset (\<lambda>opt. key opt = k) ?xs"
  have m': "m' = m\<lparr>m_selection := \<lparr>it_block = v_block (m_options m), it_offset = ?i\<rparr>\<rparr>"
    and found: "found \<longleftrightarrow> ?i \<noteq> length ?xs"
    using assms by (auto simp: select_def find_if_def vector_end_def Let_def)
  have le: "?i \<le> length ?xs" by (rule find_if_offset_le)
  have opts: "m_options m' = m_options m" by (simp add: m')
  have iff: "found \<longleftrightarrow> (\<exists>opt \<in> set ?xs. key opt = k)"
    using found le find_if_offset_less_iff [of "\<lambda>opt. key opt = k" ?xs] by auto
  have hit: "\<exists>i < length ?xs.
            m_selection m' = \<lparr>it_block = v_block (m_options m), it_offset = i\<rparr>
            \<and> key (?xs ! i) = k \<and> (\<forall>j < i. key (?xs ! j) \<noteq> k)
            \<and> selection m' = Inr (?xs ! i)" if found
  proof -
    from that found le have lt: "?i < length ?xs" by simp
    have "key (?xs ! ?i) = k" using find_if_offset_holds [OF lt] .
    moreover have "\<forall>j < ?i. key (?xs ! j) \<noteq> k"
      using find_if_offset_first [of _ "\<lambda>opt. key opt = k" ?xs] by blast
    moreover have "selection m' = Inr (?xs ! ?i)"
      using lt by (simp add: m' selection_def dereference_def)
    ultimately show ?thesis using lt by (intro exI [of _ ?i]) (simp add: m')
  qed
  have miss: "m_selection m' = vector_end (m_options m) \<and> unselected m'
         \<and> selection m' = Inl Invalid_iterator" if "\<not> found"
    using that found by (simp add: m' vector_end_def unselected_def selection_def dereference_def)
  from opts iff hit miss show ?thesis by blast
qed

theorem select_first_match_witness:
  "select 104 screen_menu = (screen_menu\<lparr>m_selection := \<lparr>it_block = 2, it_offset = 1\<rparr>\<rparr>, True)
   \<and> selection (screen_menu\<lparr>m_selection := \<lparr>it_block = 2, it_offset = 1\<rparr>\<rparr>)
       = Inr (menu_option 104 11 None)
   \<and> select 120 (screen_menu\<lparr>m_selection := \<lparr>it_block = 2, it_offset = 1\<rparr>\<rparr>)
       = (screen_menu\<lparr>m_selection := \<lparr>it_block = 2, it_offset = 2\<rparr>\<rparr>, False)
   \<and> unselected (screen_menu\<lparr>m_selection := \<lparr>it_block = 2, it_offset = 2\<rparr>\<rparr>)
   \<and> selection (screen_menu\<lparr>m_selection := \<lparr>it_block = 2, it_offset = 2\<rparr>\<rparr>)
       = Inl Invalid_iterator"
proof -
  have sm: "screen_menu = \<lparr>m_options = \<lparr>v_block = 2, v_capacity = 2,
       v_elems = [\<lparr>m_action = None, m_cfgitem = 10, m_key = 119\<rparr>,
                  \<lparr>m_action = None, m_cfgitem = 11, m_key = 104\<rparr>]\<rparr>,
    m_selection = \<lparr>it_block = 0, it_offset = 0\<rparr>\<rparr>"
    by (simp add: screen_menu_def width_menu_def add_def menu_init_def emplace_back_def
        menu_option_def)
  have h1: "select 104 screen_menu
      = (screen_menu\<lparr>m_selection := \<lparr>it_block = 2, it_offset = 1\<rparr>\<rparr>, True)"
    by (simp add: sm select_def find_if_def key_def Let_def vector_end_def)
  have h2: "select 120 (screen_menu\<lparr>m_selection := \<lparr>it_block = 2, it_offset = 1\<rparr>\<rparr>)
      = (screen_menu\<lparr>m_selection := \<lparr>it_block = 2, it_offset = 2\<rparr>\<rparr>, False)"
    by (simp add: sm select_def find_if_def key_def Let_def vector_end_def)
  from select_first_match [OF h1] obtain i
    where "m_selection (screen_menu\<lparr>m_selection := \<lparr>it_block = 2, it_offset = 1\<rparr>\<rparr>)
             = \<lparr>it_block = v_block (m_options screen_menu), it_offset = i\<rparr>"
      and "selection (screen_menu\<lparr>m_selection := \<lparr>it_block = 2, it_offset = 1\<rparr>\<rparr>)
             = Inr (v_elems (m_options screen_menu) ! i)"
    by blast
  then have hit: "selection (screen_menu\<lparr>m_selection := \<lparr>it_block = 2, it_offset = 1\<rparr>\<rparr>)
             = Inr (menu_option 104 11 None)"
    by (simp add: sm menu_option_def)
  from select_first_match [OF h2]
  have miss: "unselected (screen_menu\<lparr>m_selection := \<lparr>it_block = 2, it_offset = 2\<rparr>\<rparr>)
      \<and> selection (screen_menu\<lparr>m_selection := \<lparr>it_block = 2, it_offset = 2\<rparr>\<rparr>)
            = Inl Invalid_iterator"
    by blast
  from h1 h2 hit miss show ?thesis by blast
qed

subsection \<open>Textual assignment to a numeric setting\<close>

text \<open>
  C2. When the active alternative is numeric and the text has no numeric prefix (for
  \<open>double\<close>: the library's \<open>std::from_chars\<close> finds no number), \<open>set(text)\<close>
  returns the setting as it was; it has no error result. A setting that holds the
  integer 800 holds 800 after \<open>set("abc")\<close>.
\<close>

theorem set_text_no_numeric_prefix:
  assumes "(holds_alternative (m_value item) = KU8 \<and> no_uint_prefix s)
         \<or> (holds_alternative (m_value item) = KInt \<and> no_int_prefix s)
         \<or> (holds_alternative (m_value item) = KDouble \<and> fp_from_chars ops s = None)"
  shows "set_text ops s item = item"
proof -
  have "visit_set ops s (m_value item) = m_value item"
    using assms
    by (cases "m_value item")
       (auto simp: from_chars_uint8_no_prefix from_chars_int_no_prefix)
  then show ?thesis by (simp add: set_text_def)
qed

theorem set_text_no_numeric_prefix_witness:
  "holds_alternative (m_value screen_width) = KInt \<and> no_int_prefix ''abc''
   \<and> m_value screen_width = VInt 800
   \<and> m_value (set_text no_double ''abc'' screen_width) = VInt 800
   \<and> set_text no_double ''abc'' screen_width = screen_width"
proof -
  have k: "holds_alternative (m_value screen_width) = KInt"
    by (simp add: screen_width_def)
  have p: "no_int_prefix ''abc''"
    by (simp add: no_int_prefix_def is_digit_def)
  from k p have "set_text no_double ''abc'' screen_width = screen_width"
    by (intro set_text_no_numeric_prefix) simp
  with k p show ?thesis by (simp add: screen_width_def)
qed

subsection \<open>Textual assignment to a boolean setting\<close>

text \<open>
  C3. When the active alternative is boolean, \<open>set(text)\<close> keeps the name and stores
  true exactly when the text is \<open>1\<close> or \<open>true\<close>; every other text, \<open>0\<close> and
  \<open>yes\<close> among them, stores false.
\<close>

theorem set_text_bool:
  assumes "holds_alternative (m_value item) = KBool"
  shows "m_value (set_text ops s item) = VBool (s = ''1'' \<or> s = ''true'')
       \<and> m_name (set_text ops s item) = m_name item"
  using assms by (cases "m_value item") (simp_all add: set_text_def)

theorem set_text_bool_witness:
  "holds_alternative (m_value auto_gain) = KBool
   \<and> m_value (set_text no_double ''true'' auto_gain) = VBool True
   \<and> m_value (set_text no_double ''1'' auto_gain) = VBool True
   \<and> m_value (set_text no_double ''0'' auto_gain) = VBool False
   \<and> m_value (set_text no_double ''yes'' auto_gain) = VBool False"
proof -
  have k: "holds_alternative (m_value auto_gain) = KBool"
    by (simp add: auto_gain_def)
  from k set_text_bool [OF k, of no_double "''true''"] set_text_bool [OF k, of no_double "''1''"]
    set_text_bool [OF k, of no_double "''0''"] set_text_bool [OF k, of no_double "''yes''"]
  show ?thesis by simp
qed

subsection \<open>Round trip through the text\<close>

text \<open>
  C4. When the active alternative is boolean or an integer (\<open>uint8\<close> or \<open>int\<close>),
  the text \<open>to<std::string>()\<close> writes is read back by \<open>set\<close> as the value it was
  written from: set on any setting with the same active alternative, whatever value
  that setting held, it stores the original value and keeps that setting's name. Set
  on the setting itself, it returns the setting as it was.
\<close>

theorem set_text_to_string:
  assumes "holds_alternative (m_value item) \<in> {KBool, KU8, KInt}"
    and "holds_alternative (m_value tgt) = holds_alternative (m_value item)"
  shows "m_value (set_text ops (to_string ops item) tgt) = m_value item
       \<and> m_name (set_text ops (to_string ops item) tgt) = m_name tgt
       \<and> set_text ops (to_string ops item) item = item"
proof -
  from assms(1) have nd: "holds_alternative (m_value item) \<noteq> KDouble" by auto
  have "visit_set ops (visit_format ops (m_value item)) (m_value tgt) = m_value item"
    using nd assms(2) by (rule visit_set_format)
  moreover have "visit_set ops (visit_format ops (m_value item)) (m_value item) = m_value item"
    using nd by (rule visit_set_format) simp
  ultimately show ?thesis by (simp add: set_text_def to_string_def)
qed

theorem set_text_to_string_witness:
  "holds_alternative (m_value screen_width) \<in> {KBool, KU8, KInt}
   \<and> holds_alternative (m_value screen_height) = holds_alternative (m_value screen_width)
   \<and> to_string no_double screen_width = ''800''
   \<and> m_value (set_text no_double ''800'' screen_height) = VInt 800
   \<and> m_name (set_text no_double ''800'' screen_height) = ''screen height''
   \<and> set_text no_double ''800'' screen_width = screen_width
   \<and> m_value (set_text no_double ''-2147483648'' screen_width) = VInt (- 2147483648)
   \<and> m_value (set_text no_double ''20'' \<lparr>m_name = ''hue'', m_value = VU8 128\<rparr>) = VU8 20
   \<and> m_value (set_text no_double ''false'' \<lparr>m_name = ''auto white bal.'', m_value = VBool True\<rparr>)
       = VBool False"
proof -
  have k: "holds_alternative (m_value screen_width) \<in> {KBool, KU8, KInt}"
    and k': "holds_alternative (m_value screen_height) = holds_alternative (m_value screen_width)"
    by (simp_all add: screen_width_def screen_height_def)
  note width = set_text_to_string [OF k k', of no_double, unfolded to_string_screen_width]
  have v: "m_value screen_width = VInt 800" and n: "m_name screen_height = ''screen height''"
    by (simp_all add: screen_width_def screen_height_def)
  have "holds_alternative (m_value \<lparr>m_name = ''device id'', m_value = VInt (- 2147483648)\<rparr>)
      \<in> {KBool, KU8, KInt}"
    and "holds_alternative (m_value screen_width)
      = holds_alternative (m_value \<lparr>m_name = ''device id'', m_value = VInt (- 2147483648)\<rparr>)"
    by (simp_all add: screen_width_def)
  note low = set_text_to_string [OF this, of no_double, unfolded to_string_examples]
  have "holds_alternative (m_value \<lparr>m_name = ''gain'', m_value = VU8 20\<rparr>) \<in> {KBool, KU8, KInt}"
    and "holds_alternative (m_value \<lparr>m_name = ''hue'', m_value = VU8 128\<rparr>)
      = holds_alternative (m_value \<lparr>m_name = ''gain'', m_value = VU8 20\<rparr>)"
    by simp_all
  note gain = set_text_to_string [OF this, of no_double, unfolded to_string_examples]
  have "holds_alternative (m_value auto_gain) \<in> {KBool, KU8, KInt}"
    and "holds_alternative (m_value \<lparr>m_name = ''auto white bal.'', m_value = VBool True\<rparr>)
      = holds_alternative (m_value auto_gain)"
    by (simp_all add: auto_gain_def)
  note white = set_text_to_string [OF this, of no_double, unfolded to_string_examples]
  have g: "m_value auto_gain = VBool False" by (simp add: auto_gain_def)
  from k k' width low gain white show ?thesis
    by (simp add: to_string_screen_width v n g)
qed

subsection \<open>Applying a binding\<close>

text \<open>
  C5. \<open>apply(value)\<close> on a binding whose setting exists first sets the setting.
  Without an action the result is the store with that one setting changed. With an
  action the result is the action run on the store in which the bound setting already
  holds the new value and every other setting is as before.
\<close>

theorem option_apply_sets_then_invokes:
  assumes "st (m_cfgitem opt) = Some item"
  shows "(m_action opt = None \<longrightarrow>
            option_apply ops a opt st = Inr (st(m_cfgitem opt \<mapsto> item_set ops a item)))
       \<and> (\<forall>act. m_action opt = Some act \<longrightarrow>
            (\<exists>st'. st' (m_cfgitem opt) = Some (item_set ops a item)
                  \<and> (\<forall>p. p \<noteq> m_cfgitem opt \<longrightarrow> st' p = st p)
                  \<and> option_apply ops a opt st = Inr (act st')))"
proof -
  let ?st' = "st(m_cfgitem opt \<mapsto> item_set ops a item)"
  have "option_apply ops a opt st = Inr ?st'" if "m_action opt = None"
    using that assms by (simp add: option_apply_def)
  moreover have "\<exists>st'. st' (m_cfgitem opt) = Some (item_set ops a item)
                  \<and> (\<forall>p. p \<noteq> m_cfgitem opt \<longrightarrow> st' p = st p)
                  \<and> option_apply ops a opt st = Inr (act st')"
    if "m_action opt = Some act" for act
    using that assms by (intro exI [of _ ?st']) (simp add: option_apply_def)
  ultimately show ?thesis by blast
qed

theorem option_apply_sets_then_invokes_witness:
  "screen_store (m_cfgitem width_option) = Some screen_width
   \<and> m_action width_option = Some copy_width
   \<and> option_apply no_double (Value (VInt 1024)) width_option screen_store
       = Inr ((\<lambda>_. None)(10 \<mapsto> \<lparr>m_name = ''screen width'', m_value = VInt 1024\<rparr>,
                          11 \<mapsto> \<lparr>m_name = ''screen width'', m_value = VInt 1024\<rparr>))"
proof -
  have h: "screen_store (m_cfgitem width_option) = Some screen_width"
    by (simp add: screen_store_def width_option_def menu_option_def)
  have act: "m_action width_option = Some copy_width"
    by (simp add: width_option_def menu_option_def)
  from option_apply_sets_then_invokes
    [where st = screen_store and opt = width_option and item = screen_width
       and ops = no_double and a = "Value (VInt 1024)", OF h] act
  obtain st' where st': "st' (m_cfgitem width_option) = Some (item_set no_double (Value (VInt 1024)) screen_width)"
    and rest: "\<forall>p. p \<noteq> m_cfgitem width_option \<longrightarrow> st' p = screen_store p"
    and res: "option_apply no_double (Value (VInt 1024)) width_option screen_store = Inr (copy_width st')"
    by blast
  have "copy_width st' = (\<lambda>_. None)(10 \<mapsto> \<lparr>m_name = ''screen width'', m_value = VInt 1024\<rparr>,
                          11 \<mapsto> \<lparr>m_name = ''screen width'', m_value = VInt 1024\<rparr>)"
    using st' rest
    by (auto simp: copy_width_def fun_eq_iff width_option_def menu_option_def screen_store_def
        set_value_def screen_width_def)
  with h act res show ?thesis by simp
qed

subsection \<open>The cursor after an add\<close>




subsection \<open>Equality of menus\<close>

text \<open>
  C8, as the code has it. Two menus are equal exactly when their bindings have the same
  keys in the same order and their cursors are the same iterator.
\<close>

theorem menu_eq_iff:
  "menu_eq a b \<longleftrightarrow>
     map key (v_elems (m_options a)) = map key (v_elems (m_options b))
     \<and> m_selection a = m_selection b"
  by (simp add: menu_eq_def vector_eq_def list_all2_option_eq)

theorem menu_eq_iff_witness:
  "menu_eq width_menu_w width_menu_w \<and> \<not> menu_eq width_menu_w width_menu_x"
  using menu_eq_iff [of width_menu_w width_menu_w] menu_eq_iff [of width_menu_w width_menu_x]
  by (simp add: width_menu_w_def width_menu_x_def width_menu_def select_def
      add_def menu_init_def emplace_back_def menu_option_def find_if_def key_def Let_def)

text \<open>
  Menus with equal bindings and different cursors are not equal: one menu after
  \<open>select('w')\<close> and after \<open>select('x')\<close>, and two menus built in the same way
  that both select \<open>'w'\<close>, in different blocks.
\<close>

theorem menu_eq_counterexample:
  "vector_eq option_eq (m_options width_menu_w) (m_options width_menu_x)
   \<and> \<not> menu_eq width_menu_w width_menu_x
   \<and> vector_eq option_eq (m_options width_menu_w) (m_options other_menu_w)
   \<and> selection width_menu_w = Inr (menu_option 119 10 None)
   \<and> selection other_menu_w = Inr (menu_option 119 10 None)
   \<and> \<not> menu_eq width_menu_w other_menu_w"
  by (simp add: width_menu_w_def width_menu_x_def other_menu_w_def width_menu_def select_def
      add_def menu_init_def emplace_back_def menu_option_def find_if_def key_def Let_def
      menu_eq_def vector_eq_def option_eq_def selection_def dereference_def)

subsection \<open>The checked accessor\<close>

text \<open>
  C9. \<open>to<K>()\<close> returns the stored value when \<open>K\<close> is the active alternative. When
  it is not, the accessor fails with \<open>std::bad_variant_access\<close>; it never returns the
  stored value converted to \<open>K\<close>.
\<close>

theorem to_value_checked:
  "(holds_alternative (m_value item) = k \<longrightarrow>
      to_value k item = Inr (m_value item) \<and> operator_Value ops k item = m_value item)
   \<and> (holds_alternative (m_value item) \<noteq> k \<longrightarrow>
      to_value k item = Inl Bad_variant_access
      \<and> to_value k item \<noteq> Inr (static_cast ops k (m_value item)))"
  by (cases "m_value item"; cases k) (simp_all add: to_value_def operator_Value_def)

theorem to_value_checked_witness:
  "holds_alternative (m_value screen_width) = KInt
   \<and> to_value KInt screen_width = Inr (VInt 800)
   \<and> to_value KBool screen_width = Inl Bad_variant_access
   \<and> to_value KU8 screen_width = Inl Bad_variant_access
   \<and> to_value KDouble screen_width = Inl Bad_variant_access
   \<and> static_cast no_double KU8 (m_value screen_width) = VU8 32"
  using to_value_checked [of screen_width KInt no_double]
    to_value_checked [of screen_width KBool no_double]
    to_value_checked [of screen_width KU8 no_double]
    to_value_checked [of screen_width KDouble no_double]
  by (simp add: screen_width_def)

subsection \<open>The implicit conversion\<close>

text \<open>
  C10. The conversion operator to \<open>K\<close> has no error result: for every active
  alternative it returns a value of the alternative \<open>K\<close>, the stored value itself when
  \<open>K\<close> is active, and otherwise the stored value converted, where the checked
  accessor fails. An integer \<open>i\<close> becomes the boolean \<open>i \<noteq> 0\<close>, the \<open>uint8\<close>
  \<open>i mod 256\<close>, the \<open>int\<close> \<open>i\<close> and the \<open>double\<close> of \<open>i\<close>; a \<open>double\<close> is
  converted by the platform's conversions.
\<close>

theorem operator_Value_coerces:
  "holds_alternative (operator_Value ops k item) = k
   \<and> (holds_alternative (m_value item) = k \<longrightarrow> operator_Value ops k item = m_value item)
   \<and> (holds_alternative (m_value item) \<noteq> k \<longrightarrow> to_value k item = Inl Bad_variant_access)
   \<and> (\<forall>i. integral_value (m_value item) = Some i \<longrightarrow>
         operator_Value ops KBool item = VBool (i \<noteq> 0)
         \<and> operator_Value ops KU8 item = VU8 (word_of_int i)
         \<and> integral_value (operator_Value ops KU8 item) = Some (i mod 256)
         \<and> operator_Value ops KInt item = VInt (word_of_int i)
         \<and> integral_value (operator_Value ops KInt item) = Some i
         \<and> operator_Value ops KDouble item = VDouble (fp_of_int ops i))
   \<and> (\<forall>d. m_value item = VDouble d \<longrightarrow>
         operator_Value ops KBool item = VBool (fp_nonzero ops d)
         \<and> operator_Value ops KU8 item = VU8 (fp_to_uint8 ops d)
         \<and> operator_Value ops KInt item = VInt (fp_to_int ops d)
         \<and> operator_Value ops KDouble item = VDouble d)"
proof -
  have "holds_alternative (operator_Value ops k item) = k"
    by (simp add: operator_Value_def static_cast_kind)
  moreover have "operator_Value ops k item = m_value item"
    if "holds_alternative (m_value item) = k"
    using that by (simp add: operator_Value_def static_cast_same)
  moreover have "to_value k item = Inl Bad_variant_access"
    if "holds_alternative (m_value item) \<noteq> k"
    using that by (simp add: to_value_def)
  moreover have "operator_Value ops KBool item = VBool (i \<noteq> 0)
         \<and> operator_Value ops KU8 item = VU8 (word_of_int i)
         \<and> integral_value (operator_Value ops KU8 item) = Some (i mod 256)
         \<and> operator_Value ops KInt item = VInt (word_of_int i)
         \<and> integral_value (operator_Value ops KInt item) = Some i
         \<and> operator_Value ops KDouble item = VDouble (fp_of_int ops i)"
    if "integral_value (m_value item) = Some i" for i
    using static_cast_integral [OF that, of ops] integral_value_cast [OF that, of ops]
    by (simp only: operator_Value_def simp_thms)
  moreover have "operator_Value ops KBool item = VBool (fp_nonzero ops d)
         \<and> operator_Value ops KU8 item = VU8 (fp_to_uint8 ops d)
         \<and> operator_Value ops KInt item = VInt (fp_to_int ops d)
         \<and> operator_Value ops KDouble item = VDouble d"
    if "m_value item = VDouble d" for d
    using that by (simp add: operator_Value_def)
  ultimately show ?thesis by blast
qed

theorem operator_Value_coerces_witness:
  "integral_value (m_value screen_width) = Some 800
   \<and> holds_alternative (m_value screen_width) \<noteq> KU8
   \<and> to_value KU8 screen_width = Inl Bad_variant_access
   \<and> operator_Value no_double KU8 screen_width = VU8 32
   \<and> operator_Value no_double KBool screen_width = VBool True
   \<and> holds_alternative (m_value screen_width) = KInt
   \<and> operator_Value no_double KInt screen_width = VInt 800"
proof -
  have i: "integral_value (m_value screen_width) = Some 800"
    by (simp add: screen_width_def)
  have k: "holds_alternative (m_value screen_width) \<noteq> KU8"
    by (simp add: screen_width_def)
  have k': "holds_alternative (m_value screen_width) = KInt"
    by (simp add: screen_width_def)
  from operator_Value_coerces [of no_double KU8 screen_width] i k k'
  show ?thesis by simp
qed

end
